theory Spec2Isabelle
  imports Complex_Main
begin

section \<open>JavaScript numbers\<close>

text \<open>
  Every number of the program is a JavaScript number. The model keeps the special values
  of IEEE arithmetic (the two infinities and NaN), because several routines divide by a
  quantity that can be zero and compare the result afterwards. Finite values are real
  numbers and arithmetic on them is exact: rounding, overflow to an infinity and the sign
  of zero are not modelled (a zero divisor is taken as \<open>+0\<close>).
\<close>

datatype jsnum = Num real | PInf | NInf | NaN

definition signed_inf :: "real \<Rightarrow> jsnum" where
  "signed_inf s = (if s = 0 then NaN else if 0 < s then PInf else NInf)"

instantiation jsnum :: "{plus, uminus, minus, times, inverse, ord}"
begin

fun plus_jsnum :: "jsnum \<Rightarrow> jsnum \<Rightarrow> jsnum" where
  "plus_jsnum (Num a) (Num b) = Num (a + b)"
| "plus_jsnum NaN _ = NaN"
| "plus_jsnum _ NaN = NaN"
| "plus_jsnum PInf NInf = NaN"
| "plus_jsnum NInf PInf = NaN"
| "plus_jsnum PInf _ = PInf"
| "plus_jsnum _ PInf = PInf"
| "plus_jsnum NInf _ = NInf"
| "plus_jsnum _ NInf = NInf"

fun uminus_jsnum :: "jsnum \<Rightarrow> jsnum" where
  "uminus_jsnum (Num a) = Num (- a)"
| "uminus_jsnum PInf = NInf"
| "uminus_jsnum NInf = PInf"
| "uminus_jsnum NaN = NaN"

definition minus_jsnum :: "jsnum \<Rightarrow> jsnum \<Rightarrow> jsnum" where
  "minus_jsnum a b = a + (- b)"

fun times_jsnum :: "jsnum \<Rightarrow> jsnum \<Rightarrow> jsnum" where
  "times_jsnum (Num a) (Num b) = Num (a * b)"
| "times_jsnum NaN _ = NaN"
| "times_jsnum _ NaN = NaN"
| "times_jsnum PInf (Num b) = signed_inf b"
| "times_jsnum NInf (Num b) = signed_inf (- b)"
| "times_jsnum (Num a) PInf = signed_inf a"
| "times_jsnum (Num a) NInf = signed_inf (- a)"
| "times_jsnum PInf PInf = PInf"
| "times_jsnum PInf NInf = NInf"
| "times_jsnum NInf PInf = NInf"
| "times_jsnum NInf NInf = PInf"

fun divide_jsnum :: "jsnum \<Rightarrow> jsnum \<Rightarrow> jsnum" where
  "divide_jsnum (Num a) (Num b) = (if b = 0 then signed_inf a else Num (a / b))"
| "divide_jsnum NaN _ = NaN"
| "divide_jsnum _ NaN = NaN"
| "divide_jsnum (Num a) PInf = Num 0"
| "divide_jsnum (Num a) NInf = Num 0"
| "divide_jsnum PInf (Num b) = (if b < 0 then NInf else PInf)"
| "divide_jsnum NInf (Num b) = (if b < 0 then PInf else NInf)"
| "divide_jsnum PInf PInf = NaN"
| "divide_jsnum PInf NInf = NaN"
| "divide_jsnum NInf PInf = NaN"
| "divide_jsnum NInf NInf = NaN"

definition inverse_jsnum :: "jsnum \<Rightarrow> jsnum" where
  "inverse_jsnum a = divide (Num 1) a"

fun less_jsnum :: "jsnum \<Rightarrow> jsnum \<Rightarrow> bool" where
  "less_jsnum (Num a) (Num b) = (a < b)"
| "less_jsnum NaN _ = False"
| "less_jsnum _ NaN = False"
| "less_jsnum _ NInf = False"
| "less_jsnum PInf _ = False"
| "less_jsnum NInf _ = True"
| "less_jsnum _ PInf = True"

fun less_eq_jsnum :: "jsnum \<Rightarrow> jsnum \<Rightarrow> bool" where
  "less_eq_jsnum (Num a) (Num b) = (a \<le> b)"
| "less_eq_jsnum NaN _ = False"
| "less_eq_jsnum _ NaN = False"
| "less_eq_jsnum NInf _ = True"
| "less_eq_jsnum _ PInf = True"
| "less_eq_jsnum _ NInf = False"
| "less_eq_jsnum PInf _ = False"

instance ..

end

text \<open>The operator \<open>===\<close> on numbers: NaN is not equal to itself.\<close>

definition strict_eq :: "jsnum \<Rightarrow> jsnum \<Rightarrow> bool" where
  "strict_eq a b = (a \<noteq> NaN \<and> a = b)"

text \<open>A number is falsy when it is zero or NaN (used by \<open>a || b\<close>).\<close>

definition falsy :: "jsnum \<Rightarrow> bool" where
  "falsy a = (a = Num 0 \<or> a = NaN)"

fun Math_sqrt :: "jsnum \<Rightarrow> jsnum" where
  "Math_sqrt (Num a) = (if a < 0 then NaN else Num (sqrt a))"
| "Math_sqrt PInf = PInf"
| "Math_sqrt NInf = NaN"
| "Math_sqrt NaN = NaN"

fun Math_abs :: "jsnum \<Rightarrow> jsnum" where
  "Math_abs (Num a) = Num \<bar>a\<bar>"
| "Math_abs PInf = PInf"
| "Math_abs NInf = PInf"
| "Math_abs NaN = NaN"

fun Math_floor :: "jsnum \<Rightarrow> jsnum" where
  "Math_floor (Num a) = Num (of_int \<lfloor>a\<rfloor>)"
| "Math_floor PInf = PInf"
| "Math_floor NInf = NInf"
| "Math_floor NaN = NaN"

fun Math_sin :: "jsnum \<Rightarrow> jsnum" where
  "Math_sin (Num a) = Num (sin a)"
| "Math_sin _ = NaN"

fun Math_cos :: "jsnum \<Rightarrow> jsnum" where
  "Math_cos (Num a) = Num (cos a)"
| "Math_cos _ = NaN"

fun Math_acos :: "jsnum \<Rightarrow> jsnum" where
  "Math_acos (Num a) = (if - 1 \<le> a \<and> a \<le> 1 then Num (arccos a) else NaN)"
| "Math_acos _ = NaN"

definition Math_PI :: jsnum where
  "Math_PI = Num pi"

text \<open>
  \<open>Math.min\<close> and \<open>Math.max\<close> take any number of arguments; a NaN among them makes
  the result NaN, and with no argument they return the neutral infinity.
\<close>

definition min2 :: "jsnum \<Rightarrow> jsnum \<Rightarrow> jsnum" where
  "min2 a b = (if a = NaN \<or> b = NaN then NaN else if a \<le> b then a else b)"

definition max2 :: "jsnum \<Rightarrow> jsnum \<Rightarrow> jsnum" where
  "max2 a b = (if a = NaN \<or> b = NaN then NaN else if a \<le> b then b else a)"

definition Math_min :: "jsnum list \<Rightarrow> jsnum" where
  "Math_min xs = foldr min2 xs PInf"

definition Math_max :: "jsnum list \<Rightarrow> jsnum" where
  "Math_max xs = foldr max2 xs NInf"

text \<open>\<open>Math.pow(a, 2)\<close>, the only power the geometry takes.\<close>

definition Math_pow_2 :: "jsnum \<Rightarrow> jsnum" where
  "Math_pow_2 a = a * a"


section \<open>Exclusion zones\<close>

text \<open>
  A point is any object with fields \<open>x\<close>, \<open>y\<close>, \<open>z\<close>; a particle is one (see below), so
  the geometry takes record schemes. An exclusion zone carries a type tag and a parameter
  object; a parameter that the tag does not use is simply not read.
\<close>

record point =
  X :: jsnum
  Y :: jsnum
  Z :: jsnum

record ExclusionZone =
  ztype :: string
  zx :: jsnum
  zy :: jsnum
  zz :: jsnum
  radius :: jsnum
  height :: jsnum
  width :: jsnum
  depth :: jsnum
  axis :: string

definition containsSphere :: "ExclusionZone \<Rightarrow> 'a point_scheme \<Rightarrow> bool" where
  "containsSphere zone pt =
     (let dx = X pt - zx zone;
          dy = Y pt - zy zone;
          dz = Z pt - zz zone;
          distSquared = dx * dx + dy * dy + dz * dz
      in distSquared \<le> radius zone * radius zone)"

definition containsCylinder :: "ExclusionZone \<Rightarrow> 'a point_scheme \<Rightarrow> bool" where
  "containsCylinder zone pt =
     (let halfHeight = height zone / Num 2;
          (axialDist, radialDistSq) =
            (if axis zone = ''x'' then
               (Math_abs (X pt - zx zone),
                Math_pow_2 (Y pt - zy zone) + Math_pow_2 (Z pt - zz zone))
             else if axis zone = ''y'' then
               (Math_abs (Y pt - zy zone),
                Math_pow_2 (X pt - zx zone) + Math_pow_2 (Z pt - zz zone))
             else
               (Math_abs (Z pt - zz zone),
                Math_pow_2 (X pt - zx zone) + Math_pow_2 (Y pt - zy zone)))
      in axialDist \<le> halfHeight \<and> radialDistSq \<le> radius zone * radius zone)"

definition containsBox :: "ExclusionZone \<Rightarrow> 'a point_scheme \<Rightarrow> bool" where
  "containsBox zone pt =
     (let halfWidth = width zone / Num 2;
          halfHeight = height zone / Num 2;
          halfDepth = depth zone / Num 2
      in X pt \<ge> zx zone - halfWidth \<and> X pt \<le> zx zone + halfWidth \<and>
         Y pt \<ge> zy zone - halfHeight \<and> Y pt \<le> zy zone + halfHeight \<and>
         Z pt \<ge> zz zone - halfDepth \<and> Z pt \<le> zz zone + halfDepth)"

definition contains :: "ExclusionZone \<Rightarrow> 'a point_scheme \<Rightarrow> bool" where
  "contains zone pt =
     (if ztype zone = ''sphere'' then containsSphere zone pt
      else if ztype zone = ''cylinder'' then containsCylinder zone pt
      else if ztype zone = ''box'' then containsBox zone pt
      else False)"

definition intersectsLineSphere ::
  "ExclusionZone \<Rightarrow> 'a point_scheme \<Rightarrow> 'b point_scheme \<Rightarrow> bool" where
  "intersectsLineSphere zone p1 p2 =
     (let dx = zx zone - X p1;
          dy = zy zone - Y p1;
          dz = zz zone - Z p1;
          dirX = X p2 - X p1;
          dirY = Y p2 - Y p1;
          dirZ = Z p2 - Z p1;
          lenSq = dirX * dirX + dirY * dirY + dirZ * dirZ;
          len = Math_sqrt lenSq;
          normX = dirX / len;
          normY = dirY / len;
          normZ = dirZ / len;
          dot = dx * normX + dy * normY + dz * normZ;
          closestX = X p1 + normX * dot;
          closestY = Y p1 + normY * dot;
          closestZ = Z p1 + normZ * dot;
          t = dot / len
      in if t < Num 0 \<or> t > Num 1 then False
         else
           (let distX = closestX - zx zone;
                distY = closestY - zy zone;
                distZ = closestZ - zz zone;
                distSq = distX * distX + distY * distY + distZ * distZ
            in distSq \<le> radius zone * radius zone))"

text \<open>
  The quadratic of the infinite cylinder and the height test at its roots: the part that
  follows the \<open>switch\<close> on the axis in both cylinder routines is written once per routine,
  as in the source.
\<close>

definition intersectsLineCylinder ::
  "ExclusionZone \<Rightarrow> 'a point_scheme \<Rightarrow> 'b point_scheme \<Rightarrow> bool" where
  "intersectsLineCylinder zone p1 p2 =
     (let halfHeight = height zone / Num 2;
          p1x = X p1 - zx zone; p1y = Y p1 - zy zone; p1z = Z p1 - zz zone;
          p2x = X p2 - zx zone; p2y = Y p2 - zy zone; p2z = Z p2 - zz zone;
          dx = p2x - p1x;
          dy = p2y - p1y;
          dz = p2z - p1z;
          (a, b, c, axisValue1, axisValue2) =
            (if axis zone = ''x'' then
               (dy * dy + dz * dz,
                Num 2 * (p1y * dy + p1z * dz),
                p1y * p1y + p1z * p1z - radius zone * radius zone,
                p1x, p2x)
             else if axis zone = ''y'' then
               (dx * dx + dz * dz,
                Num 2 * (p1x * dx + p1z * dz),
                p1x * p1x + p1z * p1z - radius zone * radius zone,
                p1y, p2y)
             else
               (dx * dx + dy * dy,
                Num 2 * (p1x * dx + p1y * dy),
                p1x * p1x + p1y * p1y - radius zone * radius zone,
                p1z, p2z));
          discriminant = b * b - Num 4 * a * c
      in if discriminant < Num 0 then False
         else
           (let t1 = (- b + Math_sqrt discriminant) / (Num 2 * a);
                t2 = (- b - Math_sqrt discriminant) / (Num 2 * a)
            in if (t1 < Num 0 \<or> t1 > Num 1) \<and> (t2 < Num 0 \<or> t2 > Num 1) then False
               else if t1 \<ge> Num 0 \<and> t1 \<le> Num 1 \<and>
                       (let axisPos = axisValue1 + t1 * (axisValue2 - axisValue1)
                        in axisPos \<ge> - halfHeight \<and> axisPos \<le> halfHeight) then True
               else if t2 \<ge> Num 0 \<and> t2 \<le> Num 1 \<and>
                       (let axisPos = axisValue1 + t2 * (axisValue2 - axisValue1)
                        in axisPos \<ge> - halfHeight \<and> axisPos \<le> halfHeight) then True
               else False))"

definition intersectsLineBox ::
  "ExclusionZone \<Rightarrow> 'a point_scheme \<Rightarrow> 'b point_scheme \<Rightarrow> bool" where
  "intersectsLineBox zone p1 p2 =
     (let halfWidth = width zone / Num 2;
          halfHeight = height zone / Num 2;
          halfDepth = depth zone / Num 2;
          minX = zx zone - halfWidth;
          maxX = zx zone + halfWidth;
          minY = zy zone - halfHeight;
          maxY = zy zone + halfHeight;
          minZ = zz zone - halfDepth;
          maxZ = zz zone + halfDepth;
          dirX = X p2 - X p1;
          dirY = Y p2 - Y p1;
          dirZ = Z p2 - Z p1;
          txMin = (if strict_eq dirX (Num 0) then NInf else (minX - X p1) / dirX);
          txMax = (if strict_eq dirX (Num 0) then PInf else (maxX - X p1) / dirX);
          tyMin = (if strict_eq dirY (Num 0) then NInf else (minY - Y p1) / dirY);
          tyMax = (if strict_eq dirY (Num 0) then PInf else (maxY - Y p1) / dirY);
          tzMin = (if strict_eq dirZ (Num 0) then NInf else (minZ - Z p1) / dirZ);
          tzMax = (if strict_eq dirZ (Num 0) then PInf else (maxZ - Z p1) / dirZ);
          tMin = Math_max [Math_min [txMin, txMax],
                           Math_min [tyMin, tyMax],
                           Math_min [tzMin, tzMax]];
          tMax = Math_min [Math_max [txMin, txMax],
                           Math_max [tyMin, tyMax],
                           Math_max [tzMin, tzMax]]
      in if tMax < Num 0 \<or> tMin > tMax then False
         else tMin \<le> Num 1 \<and> tMax \<ge> Num 0)"

definition intersectsLine ::
  "ExclusionZone \<Rightarrow> 'a point_scheme \<Rightarrow> 'b point_scheme \<Rightarrow> bool" where
  "intersectsLine zone p1 p2 =
     (if ztype zone = ''sphere'' then intersectsLineSphere zone p1 p2
      else if ztype zone = ''cylinder'' then intersectsLineCylinder zone p1 p2
      else if ztype zone = ''box'' then intersectsLineBox zone p1 p2
      else False)"


section \<open>The cylinder test of the shape manager\<close>

text \<open>
  \<open>ShapeManager.lineIntersectsCylinder\<close> takes the twelve values as separate arguments;
  the iris shape calls it from its \<open>crossesExclusionZone\<close> closure.
\<close>

definition lineIntersectsCylinder ::
  "jsnum \<Rightarrow> jsnum \<Rightarrow> jsnum \<Rightarrow> jsnum \<Rightarrow> jsnum \<Rightarrow> jsnum \<Rightarrow>
   jsnum \<Rightarrow> jsnum \<Rightarrow> jsnum \<Rightarrow> jsnum \<Rightarrow> jsnum \<Rightarrow> string \<Rightarrow> bool" where
  "lineIntersectsCylinder x1 y1 z1 x2 y2 z2 cx cy cz r h ax =
     (let p1x = x1 - cx; p1y = y1 - cy; p1z = z1 - cz;
          p2x = x2 - cx; p2y = y2 - cy; p2z = z2 - cz;
          dx = p2x - p1x;
          dy = p2y - p1y;
          dz = p2z - p1z;
          (a, b, c, axisValue1, axisValue2) =
            (if ax = ''x'' then
               (dy * dy + dz * dz,
                Num 2 * (p1y * dy + p1z * dz),
                p1y * p1y + p1z * p1z - r * r,
                p1x, p2x)
             else if ax = ''y'' then
               (dx * dx + dz * dz,
                Num 2 * (p1x * dx + p1z * dz),
                p1x * p1x + p1z * p1z - r * r,
                p1y, p2y)
             else
               (dx * dx + dy * dy,
                Num 2 * (p1x * dx + p1y * dy),
                p1x * p1x + p1y * p1y - r * r,
                p1z, p2z));
          discriminant = b * b - Num 4 * a * c
      in if discriminant < Num 0 then False
         else
           (let t1 = (- b + Math_sqrt discriminant) / (Num 2 * a);
                t2 = (- b - Math_sqrt discriminant) / (Num 2 * a)
            in if (t1 < Num 0 \<or> t1 > Num 1) \<and> (t2 < Num 0 \<or> t2 > Num 1) then False
               else
                 (let halfHeight = h / Num 2
                  in if t1 \<ge> Num 0 \<and> t1 \<le> Num 1 \<and>
                          (let axisPos = axisValue1 + t1 * (axisValue2 - axisValue1)
                           in axisPos \<ge> - halfHeight \<and> axisPos \<le> halfHeight) then True
                     else if t2 \<ge> Num 0 \<and> t2 \<le> Num 1 \<and>
                          (let axisPos = axisValue1 + t2 * (axisValue2 - axisValue1)
                           in axisPos \<ge> - halfHeight \<and> axisPos \<le> halfHeight) then True
                     else False)))"


section \<open>The slab test in the words of the specification\<close>

text \<open>
  The specification describes the box test by per-axis entry and exit parameters. The
  definitions below follow that description, not the source, and exist to be compared
  with \<open>intersectsLineBox\<close>.
\<close>

definition spec_slab :: "jsnum \<Rightarrow> jsnum \<Rightarrow> jsnum \<Rightarrow> jsnum \<Rightarrow> jsnum \<times> jsnum" where
  "spec_slab lo hi p1 p2 =
     (if strict_eq (p2 - p1) (Num 0) then (NInf, PInf)
      else (Math_min [(lo - p1) / (p2 - p1), (hi - p1) / (p2 - p1)],
            Math_max [(lo - p1) / (p2 - p1), (hi - p1) / (p2 - p1)]))"

definition spec_box_hit ::
  "ExclusionZone \<Rightarrow> 'a point_scheme \<Rightarrow> 'b point_scheme \<Rightarrow> bool" where
  "spec_box_hit zone p1 p2 =
     (let (entryX, exitX) = spec_slab (zx zone - width zone / Num 2)
                                      (zx zone + width zone / Num 2) (X p1) (X p2);
          (entryY, exitY) = spec_slab (zy zone - height zone / Num 2)
                                      (zy zone + height zone / Num 2) (Y p1) (Y p2);
          (entryZ, exitZ) = spec_slab (zz zone - depth zone / Num 2)
                                      (zz zone + depth zone / Num 2) (Z p1) (Z p2);
          tMin = Math_max [entryX, entryY, entryZ];
          tMax = Math_min [exitX, exitY, exitZ]
      in tMax \<ge> Math_max [Num 0, tMin] \<and> tMin \<le> Num 1)"


section \<open>Configuration and shapes\<close>

text \<open>
  The configuration is an object of opaque numbers; nothing validates it. The fields the
  simulation core reads are kept. \<open>GRID_CELL_SIZE\<close> has no default in \<open>Config\<close>: a
  configuration that does not set it gives the grid the cell size \<open>undefined\<close>, which is
  NaN in arithmetic.
\<close>

record Config =
  PARTICLE_COUNT :: nat
  PARTICLE_SPEED :: jsnum
  BOUND :: jsnum
  CONNECTION_DISTANCE :: jsnum
  GRID_CELL_SIZE :: jsnum
  USE_WEBGL :: bool
  SHOW_CONNECTIONS :: bool
  SHAPE_SPECIFIC_CAMERA :: bool


section \<open>Particles\<close>

text \<open>
  A particle extends a point by its velocity, the transition data and the previous
  position. A target coordinate is \<open>null\<close> until \<open>setTarget\<close> is called; \<open>null\<close> is 0
  in arithmetic. The rendering fields (size, opacity, projected screen position) are left
  to the renderer.
\<close>

record Particle = point +
  vx :: jsnum
  vy :: jsnum
  vz :: jsnum
  baseVy :: jsnum
  targetX :: "jsnum option"
  targetY :: "jsnum option"
  targetZ :: "jsnum option"
  originalX :: jsnum
  originalY :: jsnum
  originalZ :: jsnum
  inTransition :: bool
  prevX :: jsnum
  prevY :: jsnum
  prevZ :: jsnum

definition toNumber :: "jsnum option \<Rightarrow> jsnum" where
  "toNumber v = (case v of None \<Rightarrow> Num 0 | Some a \<Rightarrow> a)"

text \<open>
  A shape descriptor, as a generator returns it. The camera preferences belong to the
  camera and are left out.
\<close>

record Shape =
  name :: string
  hasExclusionZone :: bool
  exclusionZone :: "ExclusionZone option"
  crossesExclusionZone :: "Particle \<Rightarrow> Particle \<Rightarrow> bool"

text \<open>
  \<open>Math.random()\<close> is a stream of reals in \<open>[0, 1)\<close>, given to each routine as the
  function \<open>rnd\<close>: \<open>rnd k\<close> is the value of the \<open>k\<close>-th call the routine makes.
\<close>

type_synonym random = "nat \<Rightarrow> real"

definition resetParticle :: "Config \<Rightarrow> random \<Rightarrow> Particle \<Rightarrow> Particle" where
  "resetParticle config rnd p =
     (let p1 = p\<lparr>vx := (Num (rnd 0) * Num 2 - Num 1) * PARTICLE_SPEED config\<rparr>;
          p2 = p1\<lparr>vy := (Num (rnd 1) * Num 2 - Num 1) * PARTICLE_SPEED config\<rparr>;
          p3 = p2\<lparr>vz := (Num (rnd 2) * Num 2 - Num 1) * PARTICLE_SPEED config\<rparr>
      in p3\<lparr>baseVy := vy p3\<rparr>)"

definition checkBounds :: "Config \<Rightarrow> random \<Rightarrow> Particle \<Rightarrow> Particle" where
  "checkBounds config rnd p =
     (let outOfBounds = (Math_abs (X p) > BOUND config \<or>
                         Math_abs (Y p) > BOUND config \<or>
                         Math_abs (Z p) > BOUND config)
      in if outOfBounds then
           (let axis' = Math_floor (Num (rnd 0) * Num 3);
                sign = (if Num (rnd 1) < Num 0.5 then Num (- 1) else Num 1);
                q = resetParticle config (\<lambda>k. rnd (k + 2)) p
            in if strict_eq axis' (Num 0) then
                 q\<lparr>X := sign * BOUND config,
                   Y := (Num (rnd 5) * Num 2 - Num 1) * BOUND config,
                   Z := (Num (rnd 6) * Num 2 - Num 1) * BOUND config,
                   vx := (- sign) * Math_abs (vx q)\<rparr>
               else if strict_eq axis' (Num 1) then
                 q\<lparr>X := (Num (rnd 5) * Num 2 - Num 1) * BOUND config,
                   Y := sign * BOUND config,
                   Z := (Num (rnd 6) * Num 2 - Num 1) * BOUND config,
                   vy := (- sign) * Math_abs (vy q),
                   baseVy := (- sign) * Math_abs (vy q)\<rparr>
               else if strict_eq axis' (Num 2) then
                 q\<lparr>X := (Num (rnd 5) * Num 2 - Num 1) * BOUND config,
                   Y := (Num (rnd 6) * Num 2 - Num 1) * BOUND config,
                   Z := sign * BOUND config,
                   vz := (- sign) * Math_abs (vz q)\<rparr>
               else q)
         else p)"

definition wouldEnterExclusionZone ::
  "Particle \<Rightarrow> jsnum \<Rightarrow> jsnum \<Rightarrow> jsnum \<Rightarrow> ExclusionZone \<Rightarrow> bool" where
  "wouldEnterExclusionZone p newX newY newZ zone =
     (let newPosition = \<lparr>X = newX, Y = newY, Z = newZ\<rparr>;
          currentPosition = \<lparr>X = X p, Y = Y p, Z = Z p\<rparr>;
          currentlyInside = contains zone currentPosition
      in if currentlyInside then False else contains zone newPosition)"

text \<open>The outward direction at the particle, before it is normalised.\<close>

definition bounceNormal :: "ExclusionZone \<Rightarrow> Particle \<Rightarrow> jsnum \<times> jsnum \<times> jsnum" where
  "bounceNormal zone p =
     (if ztype zone = ''sphere'' then
        (X p - zx zone, Y p - zy zone, Z p - zz zone)
      else if ztype zone = ''cylinder'' then
        (if axis zone = ''x'' then (Num 0, Y p - zy zone, Z p - zz zone)
         else if axis zone = ''y'' then (X p - zx zone, Num 0, Z p - zz zone)
         else (X p - zx zone, Y p - zy zone, Num 0))
      else
        (let halfWidth = width zone / Num 2;
             halfHeight = height zone / Num 2;
             halfDepth = depth zone / Num 2;
             distToRight = Math_abs ((zx zone + halfWidth) - X p);
             distToLeft = Math_abs (X p - (zx zone - halfWidth));
             distToTop = Math_abs ((zy zone + halfHeight) - Y p);
             distToBottom = Math_abs (Y p - (zy zone - halfHeight));
             distToFront = Math_abs ((zz zone + halfDepth) - Z p);
             distToBack = Math_abs (Z p - (zz zone - halfDepth));
             minDist = Math_min [distToRight, distToLeft, distToTop, distToBottom,
                                 distToFront, distToBack]
         in if strict_eq minDist distToRight then (Num 1, Num 0, Num 0)
            else if strict_eq minDist distToLeft then (Num (- 1), Num 0, Num 0)
            else if strict_eq minDist distToTop then (Num 0, Num 1, Num 0)
            else if strict_eq minDist distToBottom then (Num 0, Num (- 1), Num 0)
            else if strict_eq minDist distToFront then (Num 0, Num 0, Num 1)
            else if strict_eq minDist distToBack then (Num 0, Num 0, Num (- 1))
            else (Num 0, Num 0, Num 0)))"

definition bounceOffExclusionZone :: "ExclusionZone \<Rightarrow> Particle \<Rightarrow> Particle" where
  "bounceOffExclusionZone zone p =
     (let (nX, nY, nZ) = bounceNormal zone p;
          length' = Math_sqrt (nX * nX + nY * nY + nZ * nZ);
          (normalX, normalY, normalZ) =
            (if length' > Num 0 then (nX / length', nY / length', nZ / length')
             else (nX, nY, nZ));
          dotProduct = vx p * normalX + vy p * normalY + vz p * normalZ;
          p1 = p\<lparr>vx := vx p - Num 2 * dotProduct * normalX\<rparr>;
          p2 = p1\<lparr>vy := vy p1 - Num 2 * dotProduct * normalY\<rparr>;
          p3 = p2\<lparr>vz := vz p2 - Num 2 * dotProduct * normalZ\<rparr>
      in p3\<lparr>X := prevX p3 + vx p3 * Num 0.1,
            Y := prevY p3 + vy p3 * Num 0.1,
            Z := prevZ p3 + vz p3 * Num 0.1\<rparr>)"

text \<open>
  \<open>update\<close> reads \<open>currentShape.exclusionZone\<close> when the shape says it has one; a shape
  that says so and carries none makes the call throw a TypeError.
\<close>

datatype error = TypeError

definition update ::
  "jsnum \<Rightarrow> Config \<Rightarrow> Shape option \<Rightarrow> random \<Rightarrow> Particle \<Rightarrow> error + Particle" where
  "update globalVelocityY config currentShape rnd p =
     (if inTransition p then Inr p
      else
        (let p1 = p\<lparr>prevX := X p, prevY := Y p, prevZ := Z p\<rparr>;
             newX = X p1 + vx p1;
             newY = Y p1 + vy p1 + globalVelocityY;
             newZ = Z p1 + vz p1;
             accepted = checkBounds config rnd (p1\<lparr>X := newX, Y := newY, Z := newZ\<rparr>)
         in case currentShape of
              None \<Rightarrow> Inr accepted
            | Some shape \<Rightarrow>
                if hasExclusionZone shape then
                  (case exclusionZone shape of
                     None \<Rightarrow> Inl TypeError
                   | Some zone \<Rightarrow>
                       if wouldEnterExclusionZone p1 newX newY newZ zone
                       then Inr (bounceOffExclusionZone zone p1)
                       else Inr accepted)
                else Inr accepted))"

definition setTarget :: "jsnum \<Rightarrow> jsnum \<Rightarrow> jsnum \<Rightarrow> Particle \<Rightarrow> Particle" where
  "setTarget tx ty tz p =
     p\<lparr>targetX := Some tx, targetY := Some ty, targetZ := Some tz,
       originalX := X p, originalY := Y p, originalZ := Z p,
       inTransition := True\<rparr>"

definition updateTransition :: "jsnum \<Rightarrow> (jsnum \<Rightarrow> jsnum) \<Rightarrow> Particle \<Rightarrow> Particle" where
  "updateTransition progress easingFunction p =
     (if \<not> inTransition p then p
      else
        (let eased = easingFunction progress;
             oldX = X p; oldY = Y p; oldZ = Z p;
             p1 = p\<lparr>X := originalX p + (toNumber (targetX p) - originalX p) * eased,
                    Y := originalY p + (toNumber (targetY p) - originalY p) * eased,
                    Z := originalZ p + (toNumber (targetZ p) - originalZ p) * eased\<rparr>
         in if progress \<ge> Num 1 then
              (let dx = X p1 - oldX;
                   dy = Y p1 - oldY;
                   dz = Z p1 - oldZ;
                   length' = Math_sqrt (dx * dx + dy * dy + dz * dz);
                   p2 = (if length' > Num 0 then
                           (let currentSpeed =
                                  Math_sqrt (vx p1 * vx p1 + vy p1 * vy p1 + vz p1 * vz p1)
                            in p1\<lparr>vx := (dx / length') * currentSpeed,
                                  vy := (dy / length') * currentSpeed,
                                  vz := (dz / length') * currentSpeed,
                                  baseVy := (dy / length') * currentSpeed\<rparr>)
                         else p1)
               in p2\<lparr>originalX := X p2, originalY := Y p2, originalZ := Z p2,
                     inTransition := False\<rparr>)
            else p1))"

definition resetToRandom :: "Config \<Rightarrow> random \<Rightarrow> Particle \<Rightarrow> Particle" where
  "resetToRandom config rnd p =
     (resetParticle config (\<lambda>k. rnd (k + 3))
        (p\<lparr>X := (Num (rnd 0) * Num 2 - Num 1) * BOUND config,
           Y := (Num (rnd 1) * Num 2 - Num 1) * BOUND config,
           Z := (Num (rnd 2) * Num 2 - Num 1) * BOUND config\<rparr>))
     \<lparr>inTransition := False\<rparr>"


section \<open>Notions used to state the properties\<close>




text \<open>Concrete zones, points and particles for the examples.\<close>

definition unitSphere :: ExclusionZone where
  "unitSphere = \<lparr>ztype = ''sphere'', zx = Num 0, zy = Num 0, zz = Num 0, radius = Num 1,
                  height = NaN, width = NaN, depth = NaN, axis = []\<rparr>"

definition unitCylinder :: ExclusionZone where
  "unitCylinder = \<lparr>ztype = ''cylinder'', zx = Num 0, zy = Num 0, zz = Num 0, radius = Num 1,
                    height = Num 2, width = NaN, depth = NaN, axis = ''z''\<rparr>"

definition unitBox :: ExclusionZone where
  "unitBox = \<lparr>ztype = ''box'', zx = Num 0, zy = Num 0, zz = Num 0, radius = NaN,
               height = Num 2, width = Num 2, depth = Num 2, axis = []\<rparr>"

definition pt :: "real \<Rightarrow> real \<Rightarrow> real \<Rightarrow> point" where
  "pt a b c = \<lparr>X = Num a, Y = Num b, Z = Num c\<rparr>"

text \<open>A free-roaming particle at a position with a velocity, as the constructor leaves it.\<close>

definition particleAt :: "real \<Rightarrow> real \<Rightarrow> real \<Rightarrow> real \<Rightarrow> real \<Rightarrow> real \<Rightarrow> Particle" where
  "particleAt a b c u v w =
     \<lparr>X = Num a, Y = Num b, Z = Num c, vx = Num u, vy = Num v, vz = Num w, baseVy = Num v,
      targetX = None, targetY = None, targetZ = None,
      originalX = Num a, originalY = Num b, originalZ = Num c, inTransition = False,
      prevX = Num a, prevY = Num b, prevZ = Num c\<rparr>"


definition exampleConfig :: Config where
  "exampleConfig = \<lparr>PARTICLE_COUNT = 2, PARTICLE_SPEED = Num 0.5, BOUND = Num 100,
                     CONNECTION_DISTANCE = Num 20, GRID_CELL_SIZE = Num 50,
                     USE_WEBGL = True, SHOW_CONNECTIONS = True,
                     SHAPE_SPECIFIC_CAMERA = False\<rparr>"


text \<open>All three coordinates of a particle have magnitude at most the bound.\<close>

definition withinBound :: "Config \<Rightarrow> Particle \<Rightarrow> bool" where
  "withinBound config p =
     (Math_abs (X p) \<le> BOUND config \<and> Math_abs (Y p) \<le> BOUND config \<and>
      Math_abs (Z p) \<le> BOUND config)"

text \<open>The current shape has an exclusion zone and the zone rejects the particle's move.\<close>

definition rejects :: "Shape option \<Rightarrow> jsnum \<Rightarrow> Particle \<Rightarrow> bool" where
  "rejects currentShape g p =
     (case currentShape of
        None \<Rightarrow> False
      | Some shape \<Rightarrow>
          hasExclusionZone shape \<and>
          (case exclusionZone shape of
             None \<Rightarrow> False
           | Some zone \<Rightarrow>
               wouldEnterExclusionZone p (X p + vx p) (Y p + vy p + g) (Z p + vz p) zone))"

text \<open>The current shape says it has an exclusion zone and carries none.\<close>

definition zoneMissing :: "Shape option \<Rightarrow> bool" where
  "zoneMissing currentShape =
     (case currentShape of
        None \<Rightarrow> False
      | Some shape \<Rightarrow> hasExclusionZone shape \<and> exclusionZone shape = None)"

text \<open>A sphere zone close to the face \<open>x = 100\<close> of the domain of \<open>exampleConfig\<close>.\<close>

definition nearWallSphere :: ExclusionZone where
  "nearWallSphere = \<lparr>ztype = ''sphere'', zx = Num 98, zy = Num 0, zz = Num 0,
                      radius = Num 1.5, height = NaN, width = NaN, depth = NaN, axis = []\<rparr>"

definition nearWallShape :: Shape where
  "nearWallShape = \<lparr>name = ''custom'', hasExclusionZone = True,
                     exclusionZone = Some nearWallSphere,
                     crossesExclusionZone = (\<lambda>p1 p2. intersectsLine nearWallSphere p1 p2)\<rparr>"


section \<open>The spatial grid\<close>

text \<open>
  Particles are objects: the particle array and the grid hold references to them, and the
  simulation compares references (\<open>p1 === p2\<close>, \<open>indexOf\<close>). A reference is an
  address in a store of particle objects.

  A cell key is the string \<open>cx_cy_cz\<close> of three numbers, each the result of
  \<open>Math.floor\<close>; \<open>getNeighborKeys\<close> splits it and reads the numbers back. The model
  keeps the triple of numbers the string encodes. Two keys are the same string exactly
  when the triples are equal as values, NaN included (\<open>"NaN" === "NaN"\<close>).
\<close>

type_synonym ref = nat
type_synonym heap = "ref \<Rightarrow> Particle"
type_synonym cellKey = "jsnum \<times> jsnum \<times> jsnum"

record SpatialGrid =
  cellSize :: jsnum
  bound :: jsnum
  grid :: "cellKey \<rightharpoonup> ref list"

definition newSpatialGrid :: "jsnum \<Rightarrow> jsnum \<Rightarrow> SpatialGrid" where
  "newSpatialGrid cellSize' bound' = \<lparr>cellSize = cellSize', bound = bound', grid = Map.empty\<rparr>"

definition clear :: "SpatialGrid \<Rightarrow> SpatialGrid" where
  "clear g = g\<lparr>grid := Map.empty\<rparr>"

definition getCellKey :: "SpatialGrid \<Rightarrow> jsnum \<Rightarrow> jsnum \<Rightarrow> jsnum \<Rightarrow> cellKey" where
  "getCellKey g x y z =
     (let cx = Math_floor ((x + bound g) / cellSize g);
          cy = Math_floor ((y + bound g) / cellSize g);
          cz = Math_floor ((z + bound g) / cellSize g)
      in (cx, cy, cz))"

definition addParticle :: "heap \<Rightarrow> SpatialGrid \<Rightarrow> ref \<Rightarrow> SpatialGrid" where
  "addParticle h g r =
     (let key = getCellKey g (X (h r)) (Y (h r)) (Z (h r));
          bucket = (case grid g key of None \<Rightarrow> [] | Some ps \<Rightarrow> ps)
      in g\<lparr>grid := (grid g)(key \<mapsto> bucket @ [r])\<rparr>)"

definition addParticles :: "heap \<Rightarrow> SpatialGrid \<Rightarrow> ref list \<Rightarrow> SpatialGrid" where
  "addParticles h g particles = foldl (addParticle h) (clear g) particles"

definition getNeighborKeys :: "cellKey \<Rightarrow> cellKey list" where
  "getNeighborKeys cellKey =
     (case cellKey of (cx, cy, cz) \<Rightarrow>
        [(cx + Num dx, cy + Num dy, cz + Num dz).
           dx \<leftarrow> [- 1, 0, 1], dy \<leftarrow> [- 1, 0, 1], dz \<leftarrow> [- 1, 0, 1]])"

definition getParticlesInCell :: "SpatialGrid \<Rightarrow> cellKey \<Rightarrow> ref list" where
  "getParticlesInCell g cellKey = (case grid g cellKey of None \<Rightarrow> [] | Some ps \<Rightarrow> ps)"

definition getParticlesInNeighborhood :: "SpatialGrid \<Rightarrow> cellKey \<Rightarrow> ref list" where
  "getParticlesInNeighborhood g cellKey =
     concat (map (\<lambda>key. case grid g key of None \<Rightarrow> [] | Some ps \<Rightarrow> ps)
                 (getNeighborKeys cellKey))"

section \<open>The connections of a tick\<close>

text \<open>\<open>Array.prototype.indexOf\<close>: the first position of a reference, or -1.\<close>

fun indexOf :: "ref list \<Rightarrow> ref \<Rightarrow> int" where
  "indexOf [] r = - 1"
| "indexOf (x # xs) r =
     (if x = r then 0 else (let i = indexOf xs r in if i < 0 then - 1 else i + 1))"

definition particleDistance :: "Particle \<Rightarrow> Particle \<Rightarrow> jsnum" where
  "particleDistance p1 p2 =
     (let dx = X p1 - X p2; dy = Y p1 - Y p2; dz = Z p1 - Z p2
      in Math_sqrt (dx * dx + dy * dy + dz * dz))"

text \<open>
  The list \<open>connections\<close> that \<open>animate\<close> builds from the grid: for each particle of
  the array in order, for each particle of its neighbourhood in order, the pair is
  skipped when it is a self-pair or out of index order, and otherwise pushed when the two
  are closer than the connection distance and the current shape does not block them.
  \<open>drawConnections\<close> runs the same loops and draws instead of pushing.
\<close>

definition connections ::
  "Config \<Rightarrow> Shape option \<Rightarrow> SpatialGrid \<Rightarrow> heap \<Rightarrow> ref list \<Rightarrow> (ref \<times> ref) list" where
  "connections config currentShape g h particles =
     (if USE_WEBGL config \<or> SHOW_CONNECTIONS config then
        [(p1, p2).
           p1 \<leftarrow> particles,
           p2 \<leftarrow> getParticlesInNeighborhood g (getCellKey g (X (h p1)) (Y (h p1)) (Z (h p1))),
           \<not> (p1 = p2 \<or> indexOf particles p1 > indexOf particles p2),
           particleDistance (h p1) (h p2) < CONNECTION_DISTANCE config,
           \<not> (case currentShape of
                None \<Rightarrow> False
              | Some shape \<Rightarrow> hasExclusionZone shape \<and> crossesExclusionZone shape (h p1) (h p2))]
      else [])"

text \<open>The cell key of a particle of the store.\<close>

definition keyOf :: "heap \<Rightarrow> SpatialGrid \<Rightarrow> ref \<Rightarrow> cellKey" where
  "keyOf h g r = getCellKey g (X (h r)) (Y (h r)) (Z (h r))"

text \<open>The test a candidate pair passes to be pushed on the connection list.\<close>

definition keep :: "Config \<Rightarrow> Shape option \<Rightarrow> heap \<Rightarrow> ref list \<Rightarrow> ref \<Rightarrow> ref \<Rightarrow> bool" where
  "keep config currentShape h particles p1 p2 =
     (\<not> (p1 = p2 \<or> indexOf particles p1 > indexOf particles p2) \<and>
      particleDistance (h p1) (h p2) < CONNECTION_DISTANCE config \<and>
      \<not> (case currentShape of
           None \<Rightarrow> False
         | Some shape \<Rightarrow> hasExclusionZone shape \<and> crossesExclusionZone shape (h p1) (h p2)))"

text \<open>
  Scenario A of the specification: bound 100, cell size 50, connection distance 20,
  particles at (0,0,0), (10,0,0) and (90,90,90), and a sphere zone of radius 5 about
  (5,0,0). The second grid has no cell size, as a configuration without
  \<open>GRID_CELL_SIZE\<close> gives it.
\<close>

definition scenarioHeap :: heap where
  "scenarioHeap = (\<lambda>r. if r = 0 then particleAt 0 0 0 0 0 0
                        else if r = 1 then particleAt 10 0 0 0 0 0
                        else particleAt 90 90 90 0 0 0)"

definition scenarioZoneShape :: Shape where
  "scenarioZoneShape =
     (let zone = \<lparr>ztype = ''sphere'', zx = Num 5, zy = Num 0, zz = Num 0, radius = Num 5,
                  height = NaN, width = NaN, depth = NaN, axis = []\<rparr>
      in \<lparr>name = ''custom'', hasExclusionZone = True, exclusionZone = Some zone,
          crossesExclusionZone = (\<lambda>p1 p2. intersectsLine zone p1 p2)\<rparr>)"

definition scenarioGrid :: SpatialGrid where
  "scenarioGrid = addParticles scenarioHeap (newSpatialGrid (Num 50) (Num 100)) [0, 1, 2]"




section \<open>Geometry: proofs\<close>

lemma sqrt_64: "sqrt 64 = (8::real)"
  by (rule real_sqrt_unique) simp_all

lemma min2_eval:
  "min2 (Num a) (Num b) = Num (min a b)"
  "min2 NInf (Num a) = NInf" "min2 (Num a) NInf = NInf"
  "min2 PInf (Num a) = Num a" "min2 (Num a) PInf = Num a"
  "min2 PInf PInf = PInf" "min2 NInf NInf = NInf" "min2 NInf PInf = NInf" "min2 PInf NInf = NInf"
  "min2 NaN c = NaN" "min2 c NaN = NaN"
  by (auto simp: min2_def)

lemma max2_eval:
  "max2 (Num a) (Num b) = Num (max a b)"
  "max2 NInf (Num a) = Num a" "max2 (Num a) NInf = Num a"
  "max2 PInf (Num a) = PInf" "max2 (Num a) PInf = PInf"
  "max2 PInf PInf = PInf" "max2 NInf NInf = NInf" "max2 NInf PInf = PInf" "max2 PInf NInf = PInf"
  "max2 NaN c = NaN" "max2 c NaN = NaN"
  by (auto simp: max2_def)

text \<open>
  C5. The cylinder test of the exclusion zone and the cylinder test of the shape manager
  return the same boolean on every pair of end points and every centre, radius, height
  and axis (any axis name other than x and y is treated as z by both).
\<close>

theorem C5_cylinder_routines_agree:
  "intersectsLineCylinder zone p1 p2 =
   lineIntersectsCylinder (X p1) (Y p1) (Z p1) (X p2) (Y p2) (Z p2)
      (zx zone) (zy zone) (zz zone) (radius zone) (height zone) (axis zone)"
  unfolding intersectsLineCylinder_def lineIntersectsCylinder_def Let_def
  by (simp split: prod.splits)

theorem C5_cylinder_routines_agree_witness:
  "lineIntersectsCylinder (Num (- 2)) (Num 0) (Num 0) (Num 2) (Num 0) (Num 0)
      (Num 0) (Num 0) (Num 0) (Num 1) (Num 2) ''z''"
proof -
  have "intersectsLineCylinder unitCylinder (pt (- 2) 0 0) (pt 2 0 0)"
    unfolding intersectsLineCylinder_def unitCylinder_def pt_def Let_def case_prod_beta
    by (simp add: minus_jsnum_def sqrt_64)
  then show ?thesis
    using C5_cylinder_routines_agree [of unitCylinder "pt (- 2) 0 0" "pt 2 0 0"]
    by (simp add: unitCylinder_def pt_def)
qed

lemma hit_cond:
  "(if tMax < Num 0 \<or> tMin > tMax then False else tMin \<le> Num 1 \<and> tMax \<ge> Num 0)
   = (tMax \<ge> Math_max [Num 0, tMin] \<and> tMin \<le> Num 1)"
  by (cases tMin; cases tMax) (auto simp: Math_max_def max2_def)

lemma min_max_inf: "Math_min [NInf, PInf] = NInf" "Math_max [NInf, PInf] = PInf"
  by (simp_all add: Math_min_def Math_max_def min2_def max2_def)

text \<open>
  C9. For every box zone and every segment, \<open>intersectsLineBox\<close> returns true exactly
  when the slab description of the specification holds: with per-axis entry and exit
  parameters (minus and plus infinity for a zero direction component), the combined exit
  is at least the larger of 0 and the combined entry, and the combined entry is at most 1.
\<close>

theorem C9_box_slab_test:
  "intersectsLineBox zone p1 p2 = spec_box_hit zone p1 p2"
  unfolding intersectsLineBox_def spec_box_hit_def spec_slab_def Let_def hit_cond
  by (simp add: min_max_inf)

theorem C9_box_slab_test_witness:
  "spec_box_hit unitBox (pt (- 2) 0 0) (pt 2 0 0) \<and>
   \<not> spec_box_hit unitBox (pt (- 2) 3 0) (pt 2 4 1)"
proof -
  have "intersectsLineBox unitBox (pt (- 2) 0 0) (pt 2 0 0)"
    unfolding intersectsLineBox_def unitBox_def pt_def Let_def
    by (simp add: minus_jsnum_def strict_eq_def Math_min_def Math_max_def min2_eval max2_eval)
  moreover have "\<not> intersectsLineBox unitBox (pt (- 2) 3 0) (pt 2 4 1)"
    unfolding intersectsLineBox_def unitBox_def pt_def Let_def
    by (simp add: minus_jsnum_def strict_eq_def Math_min_def Math_max_def min2_eval max2_eval)
  ultimately show ?thesis
    using C9_box_slab_test [of unitBox "pt (- 2) 0 0" "pt 2 0 0"]
          C9_box_slab_test [of unitBox "pt (- 2) 3 0" "pt 2 4 1"]
    by simp
qed

text \<open>
  Both descriptions give a zero direction component the bounds minus and plus infinity
  whatever the position on that axis, so a segment parallel to a face is tested on the
  other axes only: the segment from (-2, 3, 0) to (2, 3, 0) passes the box of half-width 1
  at height 3 and is reported as a hit.
\<close>

lemma box_parallel_segment_outside:
  "intersectsLineBox unitBox (pt (- 2) 3 0) (pt 2 3 0) \<and>
   \<not> contains unitBox (pt 0 3 0)"
  unfolding intersectsLineBox_def contains_def containsBox_def unitBox_def pt_def Let_def
  by (simp add: minus_jsnum_def strict_eq_def Math_min_def Math_max_def min2_eval max2_eval)

text \<open>
  A segment of length zero never intersects a sphere zone: the direction cannot be
  normalised (0 / 0 is NaN) and every comparison with NaN is false.
\<close>

lemma intersectsLineSphere_point: "\<not> intersectsLineSphere zone p p"
  by (cases "X p"; cases "Y p"; cases "Z p")
     (auto simp add: intersectsLineSphere_def minus_jsnum_def signed_inf_def Let_def)

text \<open>
  C4. The point (1, 0, 0) lies on the surface of the sphere zone of radius 1 about the
  origin. \<open>contains\<close> returns true for it, and the segment from the point to itself is
  reported as not intersecting the zone.
\<close>

theorem C4_zero_length_segment_on_surface:
  "contains unitSphere (pt 1 0 0) \<and> \<not> intersectsLine unitSphere (pt 1 0 0) (pt 1 0 0)"
  unfolding contains_def containsSphere_def intersectsLine_def intersectsLineSphere_def
    unitSphere_def pt_def Let_def
  by (simp add: minus_jsnum_def signed_inf_def)


section \<open>Bouncing off a sphere\<close>








section \<open>The boundary after a tick step\<close>

lemma particleAt_simps:
  "X (particleAt a b c u v w) = Num a" "Y (particleAt a b c u v w) = Num b"
  "Z (particleAt a b c u v w) = Num c" "vx (particleAt a b c u v w) = Num u"
  "vy (particleAt a b c u v w) = Num v" "vz (particleAt a b c u v w) = Num w"
  "prevX (particleAt a b c u v w) = Num a" "prevY (particleAt a b c u v w) = Num b"
  "prevZ (particleAt a b c u v w) = Num c"
  "inTransition (particleAt a b c u v w) = False"
  "(particleAt a b c u v w)\<lparr>prevX := Num a, prevY := Num b, prevZ := Num c\<rparr>
     = particleAt a b c u v w"
  by (simp_all add: particleAt_def)

lemma update_no_shape:
  "\<not> inTransition p \<Longrightarrow>
   update g config None rnd p =
     Inr (checkBounds config rnd
            (p\<lparr>prevX := X p, prevY := Y p, prevZ := Z p,
               X := X p + vx p, Y := Y p + vy p + g, Z := Z p + vz p\<rparr>))"
  by (simp add: update_def Let_def)

lemma update_rejected:
  "\<not> inTransition p \<Longrightarrow> hasExclusionZone shape \<Longrightarrow> exclusionZone shape = Some zone \<Longrightarrow>
   wouldEnterExclusionZone p (X p + vx p) (Y p + vy p + g) (Z p + vz p) zone \<Longrightarrow>
   update g config (Some shape) rnd p =
     Inr (bounceOffExclusionZone zone (p\<lparr>prevX := X p, prevY := Y p, prevZ := Z p\<rparr>))"
  by (auto simp add: update_def Let_def wouldEnterExclusionZone_def split: if_splits)

lemma checkBounds_inside:
  "\<not> Math_abs (X p) > BOUND config \<Longrightarrow> \<not> Math_abs (Y p) > BOUND config \<Longrightarrow>
   \<not> Math_abs (Z p) > BOUND config \<Longrightarrow> checkBounds config rnd p = p"
  by (simp add: checkBounds_def)

lemma not_gt_le: "a \<noteq> NaN \<Longrightarrow> \<not> Math_abs a > Num b \<Longrightarrow> Math_abs a \<le> Num b"
  by (cases a) auto

lemma face_coord:
  fixes r b :: real
  assumes "0 \<le> r" "r < 1" "0 < b"
  shows "\<bar>(r * 2 - 1) * b\<bar> \<le> b"
proof -
  have "\<bar>r * 2 - 1\<bar> \<le> 1" using assms by (simp add: abs_le_iff)
  then have "\<bar>r * 2 - 1\<bar> * b \<le> 1 * b" using assms(3) by (intro mult_right_mono) simp_all
  then show ?thesis using assms(3) by (simp add: abs_mult)
qed

lemma axis_cases:
  fixes r :: real
  assumes "0 \<le> r" "r < 1"
  shows "\<lfloor>r * 3\<rfloor> = 0 \<or> \<lfloor>r * 3\<rfloor> = 1 \<or> \<lfloor>r * 3\<rfloor> = 2"
proof -
  have "0 \<le> \<lfloor>r * 3\<rfloor>" using assms by simp
  moreover have "\<lfloor>r * 3\<rfloor> < 3" using assms by (simp add: floor_less_iff)
  ultimately show ?thesis by linarith
qed

text \<open>
  Boundary recycling: whatever the position (NaN apart), after \<open>checkBounds\<close> every
  coordinate is within the bound. The recycled particle sits on the chosen face, and the
  other two coordinates are drawn from \<open>[-bound, bound)\<close>.
\<close>

lemma checkBounds_within:
  assumes bound: "BOUND config = Num b" "0 < b"
    and rnd: "\<forall>k. 0 \<le> rnd k \<and> rnd k < 1"
    and num: "X p \<noteq> NaN" "Y p \<noteq> NaN" "Z p \<noteq> NaN"
  shows "withinBound config (checkBounds config rnd p)"
proof (cases "Math_abs (X p) > BOUND config \<or> Math_abs (Y p) > BOUND config \<or>
              Math_abs (Z p) > BOUND config")
  case False
  then show ?thesis
    using num by (simp add: checkBounds_def withinBound_def bound not_gt_le)
next
  case True
  have r: "0 \<le> rnd 0" "rnd 0 < 1" "0 \<le> rnd 5" "rnd 5 < 1" "0 \<le> rnd 6" "rnd 6 < 1"
    using rnd by simp_all
  note f5 = face_coord[OF r(3,4) bound(2)] and f6 = face_coord[OF r(5,6) bound(2)]
  from axis_cases[OF r(1,2)] show ?thesis
    using True f5 f6 bound(2)
    by (auto simp add: checkBounds_def withinBound_def bound Let_def strict_eq_def
        minus_jsnum_def)
qed

text \<open>
  C2 (amended). For every configuration with a positive finite bound: a particle in
  transition is returned unchanged by the tick step; and for a particle not in
  transition whose candidate coordinates are numbers (not NaN) and whose move is accepted
  (no exclusion zone rejects it), the step returns a particle whose three coordinates
  have magnitude at most the bound. Nothing is said of a step that ends in a bounce.
\<close>

theorem C2_accepted_step_within_bound:
  assumes bound: "BOUND config = Num b" "0 < b"
    and rnd: "\<forall>k. 0 \<le> rnd k \<and> rnd k < 1"
  shows "(inTransition p \<longrightarrow> update g config currentShape rnd p = Inr p) \<and>
         (\<not> inTransition p \<and> \<not> zoneMissing currentShape \<and> \<not> rejects currentShape g p \<and>
          X p + vx p \<noteq> NaN \<and> Y p + vy p + g \<noteq> NaN \<and> Z p + vz p \<noteq> NaN \<longrightarrow>
          (\<exists>q. update g config currentShape rnd p = Inr q \<and> withinBound config q))"
proof (intro conjI impI)
  assume "inTransition p"
  then show "update g config currentShape rnd p = Inr p" by (simp add: update_def)
next
  assume a: "\<not> inTransition p \<and> \<not> zoneMissing currentShape \<and> \<not> rejects currentShape g p \<and>
          X p + vx p \<noteq> NaN \<and> Y p + vy p + g \<noteq> NaN \<and> Z p + vz p \<noteq> NaN"
  define p1 where "p1 = p\<lparr>prevX := X p, prevY := Y p, prevZ := Z p\<rparr>"
  define p2 where "p2 = p1\<lparr>X := X p1 + vx p1, Y := Y p1 + vy p1 + g, Z := Z p1 + vz p1\<rparr>"
  have w: "\<And>zone. wouldEnterExclusionZone p1 (X p1 + vx p1) (Y p1 + vy p1 + g) (Z p1 + vz p1) zone
        = wouldEnterExclusionZone p (X p + vx p) (Y p + vy p + g) (Z p + vz p) zone"
    by (simp add: p1_def wouldEnterExclusionZone_def)
  have "update g config currentShape rnd p = Inr (checkBounds config rnd p2)"
    using a
    by (auto simp add: update_def Let_def p1_def[symmetric] p2_def[symmetric] w rejects_def
        zoneMissing_def split: option.splits)
  moreover have "X p2 \<noteq> NaN" "Y p2 \<noteq> NaN" "Z p2 \<noteq> NaN"
    using a by (simp_all add: p2_def p1_def)
  ultimately show "\<exists>q. update g config currentShape rnd p = Inr q \<and> withinBound config q"
    using checkBounds_within[OF bound rnd] by simp
qed

theorem C2_accepted_step_within_bound_witness:
  "update (Num 0) exampleConfig None (\<lambda>k. 1 / 2)
       ((particleAt 150 0 0 1 0 0)\<lparr>inTransition := True\<rparr>)
     = Inr ((particleAt 150 0 0 1 0 0)\<lparr>inTransition := True\<rparr>) \<and>
   (\<exists>q. update (Num 0) exampleConfig None (\<lambda>k. 1 / 2) (particleAt 100 0 0 1 0 0) = Inr q \<and>
        withinBound exampleConfig q)"
proof -
  have b: "BOUND exampleConfig = Num 100" "(0::real) < 100"
    by (simp_all add: exampleConfig_def)
  have r: "\<forall>k::nat. (0::real) \<le> 1 / 2 \<and> (1::real) / 2 < 1" by simp
  have h: "\<not> inTransition (particleAt 100 0 0 1 0 0) \<and> \<not> zoneMissing None \<and>
           \<not> rejects None (Num 0) (particleAt 100 0 0 1 0 0) \<and>
           X (particleAt 100 0 0 1 0 0) + vx (particleAt 100 0 0 1 0 0) \<noteq> NaN \<and>
           Y (particleAt 100 0 0 1 0 0) + vy (particleAt 100 0 0 1 0 0) + Num 0 \<noteq> NaN \<and>
           Z (particleAt 100 0 0 1 0 0) + vz (particleAt 100 0 0 1 0 0) \<noteq> NaN"
    by (simp add: particleAt_simps zoneMissing_def rejects_def)
  show ?thesis
    using C2_accepted_step_within_bound [OF b r,
            of "(particleAt 150 0 0 1 0 0)\<lparr>inTransition := True\<rparr>" "Num 0" None]
          C2_accepted_step_within_bound [OF b r, of "particleAt 100 0 0 1 0 0" "Num 0" None] h
    by simp
qed

text \<open>
  The claim as stated fails in each of the cases it names, and for a NaN drift. With
  bound 100: a particle in transition at \<open>x = 150\<close> is left there; a particle on the face
  \<open>x = 100\<close> moving inwards into a sphere zone next to the face is bounced to
  \<open>x = 100.1\<close> and the bounce returns before the boundary check; a NaN scroll velocity
  makes \<open>y\<close> NaN, which no comparison finds out of bounds.
\<close>

lemma nearWall_normal:
  "bounceNormal nearWallSphere (particleAt 100 0 0 (- 1) 0 0) = (Num 2, Num 0, Num 0)"
  by (simp add: bounceNormal_def nearWallSphere_def particleAt_simps minus_jsnum_def)

lemma nearWall_bounce_X:
  "X (bounceOffExclusionZone nearWallSphere (particleAt 100 0 0 (- 1) 0 0)) = Num (1001 / 10)"
  by (simp add: bounceOffExclusionZone_def nearWall_normal Let_def minus_jsnum_def
      particleAt_simps)

lemma nearWall_rejected:
  "wouldEnterExclusionZone (particleAt 100 0 0 (- 1) 0 0)
    (X (particleAt 100 0 0 (- 1) 0 0) + vx (particleAt 100 0 0 (- 1) 0 0))
    (Y (particleAt 100 0 0 (- 1) 0 0) + vy (particleAt 100 0 0 (- 1) 0 0) + Num 0)
    (Z (particleAt 100 0 0 (- 1) 0 0) + vz (particleAt 100 0 0 (- 1) 0 0)) nearWallSphere"
  by (simp add: wouldEnterExclusionZone_def contains_def containsSphere_def
      nearWallSphere_def particleAt_simps Let_def minus_jsnum_def)

lemma nearWall_update:
  "update (Num 0) exampleConfig (Some nearWallShape) (\<lambda>k. 1 / 2) (particleAt 100 0 0 (- 1) 0 0)
     = Inr (bounceOffExclusionZone nearWallSphere (particleAt 100 0 0 (- 1) 0 0))"
  by (subst update_rejected[OF _ _ _ nearWall_rejected])
     (simp_all add: nearWallShape_def particleAt_simps)

theorem C2_boundary_invariant_counterexample:
  "update (Num 0) exampleConfig None (\<lambda>k. 1 / 2)
       ((particleAt 150 0 0 1 0 0)\<lparr>inTransition := True\<rparr>)
     = Inr ((particleAt 150 0 0 1 0 0)\<lparr>inTransition := True\<rparr>) \<and>
   \<not> withinBound exampleConfig ((particleAt 150 0 0 1 0 0)\<lparr>inTransition := True\<rparr>) \<and>
   (\<exists>q. update (Num 0) exampleConfig (Some nearWallShape) (\<lambda>k. 1 / 2)
           (particleAt 100 0 0 (- 1) 0 0) = Inr q \<and>
        X q = Num (1001 / 10) \<and> \<not> withinBound exampleConfig q) \<and>
   (\<exists>q. update NaN exampleConfig None (\<lambda>k. 1 / 2) (particleAt 0 0 0 1 0 0) = Inr q \<and>
        Y q = NaN \<and> \<not> withinBound exampleConfig q)"
proof (intro conjI)
  show "update (Num 0) exampleConfig None (\<lambda>k. 1 / 2)
       ((particleAt 150 0 0 1 0 0)\<lparr>inTransition := True\<rparr>)
     = Inr ((particleAt 150 0 0 1 0 0)\<lparr>inTransition := True\<rparr>)"
    by (simp add: update_def)
  show "\<not> withinBound exampleConfig ((particleAt 150 0 0 1 0 0)\<lparr>inTransition := True\<rparr>)"
    by (simp add: withinBound_def exampleConfig_def particleAt_simps)
  show "\<exists>q. update (Num 0) exampleConfig (Some nearWallShape) (\<lambda>k. 1 / 2)
           (particleAt 100 0 0 (- 1) 0 0) = Inr q \<and>
        X q = Num (1001 / 10) \<and> \<not> withinBound exampleConfig q"
  proof (intro exI conjI)
    show "update (Num 0) exampleConfig (Some nearWallShape) (\<lambda>k. 1 / 2)
            (particleAt 100 0 0 (- 1) 0 0)
          = Inr (bounceOffExclusionZone nearWallSphere (particleAt 100 0 0 (- 1) 0 0))"
      by (rule nearWall_update)
    show "X (bounceOffExclusionZone nearWallSphere (particleAt 100 0 0 (- 1) 0 0))
          = Num (1001 / 10)"
      by (rule nearWall_bounce_X)
    show "\<not> withinBound exampleConfig
             (bounceOffExclusionZone nearWallSphere (particleAt 100 0 0 (- 1) 0 0))"
      by (simp add: withinBound_def exampleConfig_def nearWall_bounce_X)
  qed
  show "\<exists>q. update NaN exampleConfig None (\<lambda>k. 1 / 2) (particleAt 0 0 0 1 0 0) = Inr q \<and>
        Y q = NaN \<and> \<not> withinBound exampleConfig q"
  proof -
    have "checkBounds exampleConfig (\<lambda>k. 1 / 2)
            ((particleAt 0 0 0 1 0 0)\<lparr>X := Num 1, Y := NaN, Z := Num 0\<rparr>)
          = (particleAt 0 0 0 1 0 0)\<lparr>X := Num 1, Y := NaN, Z := Num 0\<rparr>"
      by (rule checkBounds_inside) (simp_all add: exampleConfig_def)
    then show ?thesis
      by (simp add: update_no_shape particleAt_simps withinBound_def)
  qed
qed


section \<open>The spatial grid: proofs\<close>


lemma addParticle_params [simp]:
  "cellSize (addParticle h g r) = cellSize g" "bound (addParticle h g r) = bound g"
  by (simp_all add: addParticle_def Let_def)

lemma foldl_addParticle_params [simp]:
  "cellSize (foldl (addParticle h) g rs) = cellSize g"
  "bound (foldl (addParticle h) g rs) = bound g"
  by (induction rs arbitrary: g) simp_all

lemma addParticles_params [simp]:
  "cellSize (addParticles h g rs) = cellSize g" "bound (addParticles h g rs) = bound g"
  by (simp_all add: addParticles_def clear_def)

lemma getCellKey_params:
  "cellSize g' = cellSize g \<Longrightarrow> bound g' = bound g \<Longrightarrow> getCellKey g' = getCellKey g"
  by (simp add: getCellKey_def fun_eq_iff)

lemma keyOf_params:
  "cellSize g' = cellSize g \<Longrightarrow> bound g' = bound g \<Longrightarrow> keyOf h g' = keyOf h g"
  by (simp add: keyOf_def fun_eq_iff getCellKey_def)

lemma cell_addParticle:
  "getParticlesInCell (addParticle h g r) k =
     getParticlesInCell g k @ (if keyOf h g r = k then [r] else [])"
  by (simp add: getParticlesInCell_def addParticle_def keyOf_def Let_def)

lemma cell_foldl:
  "getParticlesInCell (foldl (addParticle h) g rs) k =
     getParticlesInCell g k @ filter (\<lambda>r. keyOf h g r = k) rs"
proof (induction rs arbitrary: g)
  case Nil
  then show ?case by simp
next
  case (Cons r rs)
  have "keyOf h (addParticle h g r) = keyOf h g" by (rule keyOf_params) simp_all
  then show ?case by (simp add: Cons.IH cell_addParticle)
qed

lemma cell_addParticles:
  "getParticlesInCell (addParticles h g rs) k = filter (\<lambda>r. keyOf h g r = k) rs"
proof -
  have "keyOf h (clear g) = keyOf h g" by (rule keyOf_params) (simp_all add: clear_def)
  then show ?thesis
    by (simp add: addParticles_def cell_foldl) (simp add: getParticlesInCell_def clear_def)
qed

lemma neighborhood_cells:
  "getParticlesInNeighborhood g k = concat (map (getParticlesInCell g) (getNeighborKeys k))"
  by (simp add: getParticlesInNeighborhood_def getParticlesInCell_def[abs_def])



















lemma concat_map_if:
  "concat (map (\<lambda>x. if P x then [f x] else []) xs) = map f (filter P xs)"
  by (induction xs) simp_all






lemma connections_filter:
  "connections config currentShape g h particles =
     (if USE_WEBGL config \<or> SHOW_CONNECTIONS config then
        concat (map (\<lambda>p1. map (Pair p1)
                   (filter (keep config currentShape h particles p1)
                      (getParticlesInNeighborhood g (keyOf h g p1)))) particles)
      else [])"
proof -
  have "\<And>p1 p2. (if \<not> (p1 = p2 \<or> indexOf particles p2 < indexOf particles p1)
            then if particleDistance (h p1) (h p2) < CONNECTION_DISTANCE config
                 then if \<not> (case currentShape of None \<Rightarrow> False
                           | Some shape \<Rightarrow> hasExclusionZone shape \<and>
                                           crossesExclusionZone shape (h p1) (h p2))
                      then [(p1, p2)] else []
                 else []
            else [])
         = (if keep config currentShape h particles p1 p2 then [(p1, p2)] else [])"
    by (simp add: keep_def)
  then show ?thesis
    by (simp add: connections_def keyOf_def concat_map_if)
qed




lemma keyOf_addParticles: "keyOf h (addParticles h g rs) = keyOf h g"
  by (rule keyOf_params) simp_all

lemma sqrt_less_numeral: "0 \<le> b \<Longrightarrow> (sqrt a < b) = (a < b * b)"
  by (metis abs_of_nonneg real_sqrt_abs2 real_sqrt_less_iff)

lemma scenario_fields:
  "X (scenarioHeap 0) = Num 0" "Y (scenarioHeap 0) = Num 0" "Z (scenarioHeap 0) = Num 0"
  "X (scenarioHeap (Suc 0)) = Num 10" "Y (scenarioHeap (Suc 0)) = Num 0" "Z (scenarioHeap (Suc 0)) = Num 0"
  "X (scenarioHeap 2) = Num 90" "Y (scenarioHeap 2) = Num 90" "Z (scenarioHeap 2) = Num 90"
  by (simp_all add: scenarioHeap_def particleAt_simps)

lemma scenario_keys:
  "keyOf scenarioHeap (newSpatialGrid (Num 50) (Num 100)) 0 = (Num 2, Num 2, Num 2)"
  "keyOf scenarioHeap (newSpatialGrid (Num 50) (Num 100)) (Suc 0) = (Num 2, Num 2, Num 2)"
  "keyOf scenarioHeap (newSpatialGrid (Num 50) (Num 100)) 2 = (Num 3, Num 3, Num 3)"
  by (simp_all add: keyOf_def getCellKey_def newSpatialGrid_def scenario_fields)

lemma scenario_dist:
  "particleDistance (scenarioHeap 0) (scenarioHeap (Suc 0)) = Num 10"
  "particleDistance (scenarioHeap 0) (scenarioHeap 2) = Num (sqrt 24300)"
  "particleDistance (scenarioHeap (Suc 0)) (scenarioHeap 2) = Num (sqrt 22600)"
  by (simp_all add: particleDistance_def scenario_fields minus_jsnum_def Let_def
      real_sqrt_unique[of 10 100])

lemma scenario_grid_keys:
  "keyOf scenarioHeap scenarioGrid 0 = (Num 2, Num 2, Num 2)"
  "keyOf scenarioHeap scenarioGrid (Suc 0) = (Num 2, Num 2, Num 2)"
  "keyOf scenarioHeap scenarioGrid 2 = (Num 3, Num 3, Num 3)"
  by (simp_all add: scenarioGrid_def keyOf_addParticles scenario_keys)

lemma scenario_nb:
  "getParticlesInNeighborhood scenarioGrid (Num 2, Num 2, Num 2) = [0, 1, 2]"
  "getParticlesInNeighborhood scenarioGrid (Num 3, Num 3, Num 3) = [0, 1, 2]"
  by (simp_all add: scenarioGrid_def neighborhood_cells cell_addParticles scenario_keys
      getNeighborKeys_def)


lemma scenario_A:
  "connections exampleConfig (Some scenarioZoneShape) scenarioGrid scenarioHeap [0, 1, 2] = []"
proof -
  have "crossesExclusionZone scenarioZoneShape (scenarioHeap 0) (scenarioHeap (Suc 0))"
    by (simp add: scenarioZoneShape_def intersectsLine_def intersectsLineSphere_def Let_def
      scenario_fields minus_jsnum_def real_sqrt_unique[of 10 100])
  moreover have "hasExclusionZone scenarioZoneShape"
    by (simp add: scenarioZoneShape_def Let_def)
  ultimately show ?thesis
    by (simp add: connections_filter scenario_grid_keys scenario_nb keep_def
        scenario_dist exampleConfig_def sqrt_less_numeral)
qed








end
